theory Spec2Isabelle
  imports Main
begin

section \<open>The lofreq command dispatcher (src/lofreq/lofreq_main.c)\<close>

text \<open>
  The unit is one C function, \<^verbatim>\<open>main(int argc, char *argv[])\<close>, and its helper
  \<^verbatim>\<open>usage\<close>. The model takes the argument vector as the list of the strings
  \<^verbatim>\<open>argv[0] .. argv[argc-1]\<close>, so \<^verbatim>\<open>argc\<close> is the length of the list and
  \<^verbatim>\<open>argv[argc]\<close> is the null pointer, as the C standard fixes it. The arguments are C
  strings; the numbers involved (\<^verbatim>\<open>argc\<close>, \<^verbatim>\<open>argc - 1\<close>, the loop index) stay between
  0 and \<^verbatim>\<open>argc\<close>, so they are modelled as \<open>int\<close> without wrap-around.

  Everything main does besides returning is recorded, in program order, as a list of
  events: the writes to the two streams, the fatal log call, the call of the external
  handler, the allocation, the process replacement and the release of the buffer.
\<close>

subsection \<open>Observable behaviour\<close>

datatype stream = Stdout | Stderr

datatype event =
    Fprintf stream string
  | Log_fatal string
  | Main_call int "string list"
  | Calloc nat
  | Execvp string "string option list"
  | Free

text \<open>
  The places where control leaves main: each \<^verbatim>\<open>return\<close> statement of the source, in
  source order (lines 29, 32, 44, 47, 52, 55 and 57).
\<close>

datatype site =
    At_usage | At_call | At_filter_fail | At_filter_else | At_version | At_unknown | At_end

datatype outcome =
    Returned site int
  | Replaced
  | Null_deref
  | Out_of_bounds

text \<open>
  \<open>Replaced\<close>: \<^verbatim>\<open>execvp\<close> succeeded, the process image is gone and main never returns.
  \<open>Null_deref\<close>: main used a null pointer where an object is required;
  \<open>Out_of_bounds\<close>: main read or wrote outside an array. Both are undefined behaviour
  in C, a crash in practice.
\<close>

datatype branch = Usage_guard | Call | Filter | Version | Unknown | Fell_through

record result =
  branch :: branch
  trace :: "event list"
  outcome :: outcome

subsection \<open>What the unit takes from outside\<close>

text \<open>
  \<open>PACKAGE_NAME\<close> and \<open>PACKAGE_VERSION\<close> are compile-time string constants of the build
  configuration; \<open>main_call\<close> is the external handler of lofreq_snpcaller.h (its own
  effects are not part of this unit, only the call and the value it returns);
  \<open>calloc_ok n\<close> says whether the C library grants an allocation of \<open>n\<close> pointers;
  \<open>execvp\<close> and \<open>strerror\<close> are the C library's.
  A result \<open>Exec_returned r e\<close> of \<open>execvp\<close> means that the call came back with value
  \<open>r\<close> and left \<open>e\<close> in \<^verbatim>\<open>errno\<close>.
\<close>

datatype exec_result = Exec_replaced | Exec_returned int int

record env =
  PACKAGE_NAME :: string
  PACKAGE_VERSION :: string
  main_call :: "int \<Rightarrow> string list \<Rightarrow> int"
  calloc_ok :: "nat \<Rightarrow> bool"
  execvp :: "string \<Rightarrow> string option list \<Rightarrow> exec_result"
  strerror :: "int \<Rightarrow> string"

subsection \<open>C library functions used by main\<close>

text \<open>
  \<^verbatim>\<open>strcmp\<close> compares byte by byte; the C standard fixes only the sign of a nonzero
  result, so the model returns -1, 0 or 1.
\<close>

fun strcmp :: "string \<Rightarrow> string \<Rightarrow> int" where
  "strcmp [] [] = 0"
| "strcmp [] (y # ys) = - 1"
| "strcmp (x # xs) [] = 1"
| "strcmp (x # xs) (y # ys) =
     (if x = y then strcmp xs ys
      else if (of_char x :: nat) < of_char y then - 1 else 1)"

text \<open>
  \<^verbatim>\<open>perror(s)\<close> writes \<^verbatim>\<open>s\<close>, a colon and a space, the message \<^verbatim>\<open>strerror(errno)\<close>
  and a newline to the error stream.
\<close>

definition perror :: "env \<Rightarrow> int \<Rightarrow> string \<Rightarrow> event" where
  "perror env errno s = Fprintf Stderr (s @ '': '' @ strerror env errno @ ''\<newline>'')"

text \<open>
  \<^verbatim>\<open>calloc(n, sizeof(char* ))\<close>: \<open>n\<close> slots, all null (\<open>None\<close>), or the null pointer
  when the allocation is refused.
\<close>

definition calloc :: "env \<Rightarrow> nat \<Rightarrow> string option list option" where
  "calloc env n = (if calloc_ok env n then Some (replicate n None) else None)"

text \<open>
  An assignment \<^verbatim>\<open>buf[i] = p\<close> into an allocated block: defined only inside the block.
\<close>

definition store :: "string option list \<Rightarrow> int \<Rightarrow> string option \<Rightarrow> string option list option" where
  "store buf i p = (if 0 \<le> i \<and> i < int (length buf) then Some (buf[nat i := p]) else None)"

subsection \<open>Macros of headers that are not part of the unit\<close>

text \<open>
  Modelled from the spec: \<^verbatim>\<open>BASENAME\<close> (utils.h) is missing. The spec calls its
  result "the program's invocation name (basename of argument 0)": the part of the path
  after its last slash, the whole string when there is none.
\<close>

definition BASENAME :: "string \<Rightarrow> string" where
  "BASENAME x = rev (takeWhile (\<lambda>c. c \<noteq> CHR ''/'') (rev x))"

text \<open>
  Modelled from the spec: \<^verbatim>\<open>LOG_FATAL\<close> (log.h) is missing. The spec describes "a
  fatal-severity log call accepting a format string and token, writing to the error
  stream"; the model records the formatted message as a \<open>Log_fatal\<close> event.
\<close>

definition LOG_FATAL :: "string \<Rightarrow> event" where
  "LOG_FATAL msg = Log_fatal msg"

subsection \<open>usage\<close>

definition usage :: "env \<Rightarrow> string \<Rightarrow> event list" where
  "usage env myname =
     [Fprintf Stderr (PACKAGE_NAME env @ '': Fast and sensitive inference of single-nucleotide variants\<newline>''),
      Fprintf Stderr ''\<newline>'',
      Fprintf Stderr (''Usage: '' @ myname @ '' <command> [options], where command is one of:\<newline>''),
      Fprintf Stderr ''  call    : call variants\<newline>'',
      Fprintf Stderr ''  version : prints version\<newline>'',
      Fprintf Stderr ''  filter : filter variants\<newline>'',
      Fprintf Stderr ''\<newline>'']"

subsection \<open>main\<close>

text \<open>
  The copy loop of the filter branch,
  \<^verbatim>\<open>for (i=2; i<argc; i++) argv_execvp[i-1] = argv[i];\<close>
  started at \<open>i\<close>. \<open>None\<close> is a read outside \<^verbatim>\<open>argv\<close> or a write outside the
  block.
\<close>

function copy_loop :: "string list \<Rightarrow> int \<Rightarrow> string option list \<Rightarrow> string option list option" where
  "copy_loop argv i buf =
     (if i < int (length argv) then
        (if i < 0 then None
         else case store buf (i - 1) (Some (argv ! nat i)) of
                None \<Rightarrow> None
              | Some buf' \<Rightarrow> copy_loop argv (i + 1) buf')
      else Some buf)"
  by pat_completeness auto
termination
  by (relation "measure (\<lambda>(argv, i, buf). nat (int (length argv) - i))") auto

text \<open>
  The block \<^verbatim>\<open>argv_execvp\<close> as it is when \<^verbatim>\<open>execvp\<close> is called, given the block that
  \<^verbatim>\<open>calloc\<close> returned: slot 0 takes \<^verbatim>\<open>argv[0]\<close>, then the loop runs.
\<close>

definition argv_execvp :: "string list \<Rightarrow> string option list \<Rightarrow> string option list option" where
  "argv_execvp argv buf0 =
     (case store buf0 0 (Some (argv ! 0)) of
        None \<Rightarrow> None
      | Some buf1 \<Rightarrow> copy_loop argv 2 buf1)"

text \<open>
  The filter branch, lines 35 to 48. The source does not test the result of
  \<^verbatim>\<open>calloc\<close>: when it is null, the assignment to slot 0 goes through a null pointer.
  \<^verbatim>\<open>execvp\<close> is handed the block as it is; what lies behind the last slot of the block
  is not part of the model.
\<close>

definition filter_branch :: "env \<Rightarrow> string list \<Rightarrow> result" where
  "filter_branch env argv =
     (let argc = int (length argv); n = nat (argc - 1) in
      case calloc env n of
        None \<Rightarrow> \<lparr>branch = Filter, trace = [Calloc n], outcome = Null_deref\<rparr>
      | Some buf0 \<Rightarrow>
          (case argv_execvp argv buf0 of
             None \<Rightarrow> \<lparr>branch = Filter, trace = [Calloc n], outcome = Out_of_bounds\<rparr>
           | Some buf \<Rightarrow>
               (case execvp env ''lofreq2_filter.py'' buf of
                  Exec_replaced \<Rightarrow>
                    \<lparr>branch = Filter,
                     trace = [Calloc n, Execvp ''lofreq2_filter.py'' buf],
                     outcome = Replaced\<rparr>
                | Exec_returned r errno \<Rightarrow>
                    if r \<noteq> 0 then
                      \<lparr>branch = Filter,
                       trace = [Calloc n, Execvp ''lofreq2_filter.py'' buf,
                                perror env errno ''Calling lofreq2_filter.py via execvp failed'',
                                Free],
                       outcome = Returned At_filter_fail (- 1)\<rparr>
                    else
                      \<lparr>branch = Filter,
                       trace = [Calloc n, Execvp ''lofreq2_filter.py'' buf, Free],
                       outcome = Returned At_filter_else 0\<rparr>)))"

text \<open>
  The chain \<^verbatim>\<open>if .. else if .. else if .. else\<close> of lines 31 to 56, entered with
  \<^verbatim>\<open>argc >= 2\<close>. \<open>Some r\<close>: an arm ended main with \<open>r\<close>; \<open>None\<close>: control left the
  chain and goes on to the statement after it.
\<close>

definition dispatch :: "env \<Rightarrow> string list \<Rightarrow> result option" where
  "dispatch env argv =
     (let argc = int (length argv) in
      if strcmp (argv ! 1) ''call'' = 0 then
        Some \<lparr>branch = Call,
              trace = [Main_call (argc - 1) (drop 1 argv)],
              outcome = Returned At_call (main_call env (argc - 1) (drop 1 argv))\<rparr>
      else if strcmp (argv ! 1) ''filter'' = 0 then
        Some (filter_branch env argv)
      else if strcmp (argv ! 1) ''version'' = 0 then
        Some \<lparr>branch = Version,
              trace = [Fprintf Stdout (PACKAGE_VERSION env @ ''\<newline>'')],
              outcome = Returned At_version 0\<rparr>
      else
        Some \<lparr>branch = Unknown,
              trace = [LOG_FATAL (''Unrecognized command '' @ [CHR 0x27] @ argv ! 1 @ [CHR 0x27] @ ''\<newline>'')],
              outcome = Returned At_unknown 1\<rparr>)"

text \<open>
  main. The guard \<^verbatim>\<open>argc < 2\<close> also lets \<^verbatim>\<open>argc = 0\<close> through; then \<^verbatim>\<open>argv[0]\<close> is
  the null pointer that ends the vector, and \<^verbatim>\<open>BASENAME\<close> and the \<^verbatim>\<open>%s\<close> of
  \<^verbatim>\<open>fprintf\<close> are given no string to read. The last \<^verbatim>\<open>return 0\<close> of the source is
  the \<open>None\<close> case of the chain.
\<close>

definition main :: "env \<Rightarrow> string list \<Rightarrow> result" where
  "main env argv =
     (let argc = int (length argv) in
      if argc < 2 then
        (case argv of
           [] \<Rightarrow> \<lparr>branch = Usage_guard, trace = [], outcome = Null_deref\<rparr>
         | a0 # _ \<Rightarrow>
             \<lparr>branch = Usage_guard, trace = usage env (BASENAME a0), outcome = Returned At_usage 1\<rparr>)
      else
        (case dispatch env argv of
           Some r \<Rightarrow> r
         | None \<Rightarrow> \<lparr>branch = Fell_through, trace = [], outcome = Returned At_end 0\<rparr>))"

subsection \<open>A concrete environment\<close>

text \<open>
  A stub handler that returns 7, an allocator that never refuses, and an \<^verbatim>\<open>execvp\<close>
  that does not find the script: it returns -1 with \<^verbatim>\<open>errno = ENOENT\<close> (2).
\<close>

definition env0 :: env where
  "env0 =
     \<lparr>PACKAGE_NAME = ''lofreq'',
      PACKAGE_VERSION = ''2.0.0'',
      main_call = (\<lambda>n v. 7),
      calloc_ok = (\<lambda>n. True),
      execvp = (\<lambda>file v. Exec_returned (- 1) 2),
      strerror = (\<lambda>e. if e = 2 then ''No such file or directory'' else ''Unknown error'')\<rparr>"

subsection \<open>Vocabulary of the properties\<close>

text \<open>The calls of \<^verbatim>\<open>execvp\<close> in a trace: the file name and the vector of each.\<close>

fun execvp_calls :: "event list \<Rightarrow> (string \<times> string option list) list" where
  "execvp_calls [] = []"
| "execvp_calls (Execvp file v # es) = (file, v) # execvp_calls es"
| "execvp_calls (e # es) = execvp_calls es"

text \<open>
  \<^verbatim>\<open>execvp\<close> reads its vector up to the first null pointer. A block is terminated when
  one of its slots is null; otherwise the reading runs past the end of the block.
\<close>

definition terminated :: "string option list \<Rightarrow> bool" where
  "terminated v = (None \<in> set v)"

text \<open>The slots of a block that hold a pointer.\<close>

definition filled :: "string option list \<Rightarrow> nat" where
  "filled v = length (filter (\<lambda>p. p \<noteq> None) v)"

text \<open>
  The return statements inside the arms of the dispatch chain (lines 31 to 56); the
  return of the usage guard (line 29) and the last statement of main (line 57) are
  outside it.
\<close>

fun in_dispatch_chain :: "site \<Rightarrow> bool" where
  "in_dispatch_chain At_usage = False"
| "in_dispatch_chain At_call = True"
| "in_dispatch_chain At_filter_fail = True"
| "in_dispatch_chain At_filter_else = True"
| "in_dispatch_chain At_version = True"
| "in_dispatch_chain At_unknown = True"
| "in_dispatch_chain At_end = False"

section \<open>Properties\<close>

subsection \<open>Library and loop lemmas\<close>

declare copy_loop.simps [simp del]

lemma strcmp_eq_0_iff: "strcmp a b = 0 \<longleftrightarrow> a = b"
  by (induction a b rule: strcmp.induct) auto

lemma copy_loop_step:
  assumes "1 \<le> i" and "i < int (length argv)" and "nat (i - 1) < length buf"
  shows "copy_loop argv i buf = copy_loop argv (i + 1) (buf[nat (i - 1) := Some (argv ! nat i)])"
proof -
  from assms have "i - 1 < int (length buf)" by linarith
  with assms have "store buf (i - 1) (Some (argv ! nat i)) = Some (buf[nat (i - 1) := Some (argv ! nat i)])"
    by (simp add: store_def)
  with assms show ?thesis by (subst copy_loop.simps) simp
qed

lemma copy_loop_exit: "\<not> i < int (length argv) \<Longrightarrow> copy_loop argv i buf = Some buf"
  by (subst copy_loop.simps) simp

text \<open>
  The loop invariant: when the loop stands at \<open>i\<close>, the slots below \<open>i - 1\<close> are
  final and the arguments from \<open>i\<close> on are still to be copied behind them.
\<close>

lemma copy_loop_inv:
  "2 \<le> i \<Longrightarrow> i \<le> int (length argv) \<Longrightarrow> length buf + 1 = length argv \<Longrightarrow>
   copy_loop argv i buf = Some (take (nat i - 1) buf @ map Some (drop (nat i) argv))"
proof (induction argv i buf rule: copy_loop.induct)
  case (1 argv i buf)
  show ?case
  proof (cases "i < int (length argv)")
    case True
    define k where "k = nat i - 1"
    let ?buf' = "buf[k := Some (argv ! Suc k)]"
    have i: "nat i = Suc k" "nat (i - 1) = k" "nat (i + 1) = Suc (Suc k)" "nat (i + 1) - 1 = Suc k"
      using "1.prems" by (simp_all add: k_def)
    have k: "k < length buf" "Suc k < length argv"
      using True "1.prems" by (simp_all add: k_def)
    have st: "store buf (i - 1) (Some (argv ! nat i)) = Some ?buf'"
      using True "1.prems" k by (simp add: store_def i)
    have "copy_loop argv i buf = copy_loop argv (i + 1) ?buf'"
      using copy_loop_step[of i argv buf] True "1.prems" k by (simp add: i)
    also have "\<dots> = Some (take (nat (i + 1) - 1) ?buf' @ map Some (drop (nat (i + 1)) argv))"
      using "1.IH"[OF True _ st] True "1.prems" by simp
    also have "take (nat (i + 1) - 1) ?buf' = take k buf @ [Some (argv ! Suc k)]"
      using k by (simp add: i take_Suc_conv_app_nth)
    also have "(take k buf @ [Some (argv ! Suc k)]) @ map Some (drop (nat (i + 1)) argv)
               = take (nat i - 1) buf @ map Some (drop (nat i) argv)"
      using k by (simp add: i Cons_nth_drop_Suc[symmetric])
    finally show ?thesis .
  next
    case False
    then have "nat i = length argv" using "1.prems" by simp
    then show ?thesis using "1.prems" False
      by (simp add: copy_loop_exit)
  qed
qed

lemma argv_execvp_eq:
  assumes "2 \<le> length argv"
  shows "argv_execvp argv (replicate (length argv - 1) None) = Some (map Some (argv ! 0 # drop 2 argv))"
proof -
  obtain m where m: "length argv = Suc (Suc m)"
    using assms by (cases argv; cases "tl argv") auto
  let ?buf1 = "(replicate (length argv - 1) None)[0 := Some (argv ! 0)]"
  have "copy_loop argv 2 ?buf1 = Some (take (nat 2 - 1) ?buf1 @ map Some (drop (nat 2) argv))"
    using assms by (intro copy_loop_inv) simp_all
  then show ?thesis
    by (simp add: argv_execvp_def store_def m)
qed

subsection \<open>The branches of main\<close>

lemma main_filter:
  "2 \<le> length argv \<Longrightarrow> argv ! 1 = ''filter'' \<Longrightarrow> main env argv = filter_branch env argv"
  by (simp add: main_def dispatch_def strcmp_eq_0_iff)

lemma filter_branch_eq:
  assumes "2 \<le> length argv" and "calloc_ok env (length argv - 1)"
  shows "filter_branch env argv =
    (case execvp env ''lofreq2_filter.py'' (map Some (argv ! 0 # drop 2 argv)) of
       Exec_replaced \<Rightarrow>
         \<lparr>branch = Filter,
          trace = [Calloc (length argv - 1),
                   Execvp ''lofreq2_filter.py'' (map Some (argv ! 0 # drop 2 argv))],
          outcome = Replaced\<rparr>
     | Exec_returned r errno \<Rightarrow>
         if r \<noteq> 0 then
           \<lparr>branch = Filter,
            trace = [Calloc (length argv - 1),
                     Execvp ''lofreq2_filter.py'' (map Some (argv ! 0 # drop 2 argv)),
                     perror env errno ''Calling lofreq2_filter.py via execvp failed'',
                     Free],
            outcome = Returned At_filter_fail (- 1)\<rparr>
         else
           \<lparr>branch = Filter,
            trace = [Calloc (length argv - 1),
                     Execvp ''lofreq2_filter.py'' (map Some (argv ! 0 # drop 2 argv)),
                     Free],
            outcome = Returned At_filter_else 0\<rparr>)"
proof -
  have n: "nat (int (length argv) - 1) = length argv - 1"
    by simp
  show ?thesis
    using assms
    by (simp only: filter_branch_def Let_def n calloc_def if_True option.case argv_execvp_eq)
qed

lemma filter_branch_calls:
  assumes "2 \<le> length argv" and "calloc_ok env (length argv - 1)"
  shows "execvp_calls (trace (filter_branch env argv)) =
           [(''lofreq2_filter.py'', map Some (argv ! 0 # drop 2 argv))]"
  by (simp add: filter_branch_eq[OF assms] perror_def split: exec_result.split)

lemma filter_branch_no_calloc:
  "\<not> calloc_ok env (nat (int (length argv) - 1)) \<Longrightarrow>
   filter_branch env argv =
     \<lparr>branch = Filter, trace = [Calloc (nat (int (length argv) - 1))], outcome = Null_deref\<rparr>"
  by (simp add: filter_branch_def calloc_def)

lemma main_usage_argc1:
  "main env [a0] =
     \<lparr>branch = Usage_guard, trace = usage env (BASENAME a0), outcome = Returned At_usage 1\<rparr>"
  by (simp add: main_def)

lemma filter_vector_full:
  assumes "2 \<le> length argv"
  shows "length (map Some (argv ! 0 # drop 2 argv)) = length argv - 1"
    and "filled (map Some (argv ! 0 # drop 2 argv)) = length argv - 1"
    and "\<not> terminated (map Some (argv ! 0 # drop 2 argv))"
proof -
  let ?v = "map Some (argv ! 0 # drop 2 argv)"
  show len: "length ?v = length argv - 1" using assms by simp
  have "filter (\<lambda>p. p \<noteq> None) ?v = ?v" by (rule filter_True) auto
  then show "filled ?v = length argv - 1" using len by (simp only: filled_def)
  show "\<not> terminated ?v" by (auto simp: terminated_def)
qed

section \<open>The claims\<close>

subsection \<open>C1: the vector that the filter branch forwards\<close>

text \<open>
  C1. For every invocation with \<^verbatim>\<open>argc >= 3\<close> whose argument 1 is \<^verbatim>\<open>filter\<close>, the block
  built for the process replacement holds \<^verbatim>\<open>argv[0]\<close> in slot 0 and behind it the
  arguments from index 2 on, in their order; the token \<^verbatim>\<open>filter\<close> is dropped. When the
  allocation is granted, this block is what main hands to \<^verbatim>\<open>execvp\<close>, once, together
  with the file name \<^verbatim>\<open>lofreq2_filter.py\<close>.
\<close>

theorem filter_forwards_argv0_and_rest:
  assumes "3 \<le> length argv" and "argv ! 1 = ''filter''"
  shows "argv_execvp argv (replicate (length argv - 1) None) = Some (map Some (argv ! 0 # drop 2 argv)) \<and>
         (calloc_ok env (length argv - 1) \<longrightarrow>
            execvp_calls (trace (main env argv)) =
              [(''lofreq2_filter.py'', map Some (argv ! 0 # drop 2 argv))])"
proof -
  from assms have two: "2 \<le> length argv" by simp
  have "argv_execvp argv (replicate (length argv - 1) None) = Some (map Some (argv ! 0 # drop 2 argv))"
    using two by (rule argv_execvp_eq)
  moreover have "execvp_calls (trace (main env argv)) =
      [(''lofreq2_filter.py'', map Some (argv ! 0 # drop 2 argv))]"
    if "calloc_ok env (length argv - 1)"
    using two assms(2) that by (simp add: main_filter filter_branch_calls)
  ultimately show ?thesis by blast
qed

text \<open>The example of the claim: \<^verbatim>\<open>progname filter x y\<close> forwards \<^verbatim>\<open>[progname, x, y]\<close>.\<close>

theorem filter_forwards_argv0_and_rest_witness:
  "3 \<le> length [''progname'', ''filter'', ''x'', ''y''] \<and>
   [''progname'', ''filter'', ''x'', ''y''] ! 1 = ''filter'' \<and>
   calloc_ok env0 (length [''progname'', ''filter'', ''x'', ''y''] - 1) \<and>
   argv_execvp [''progname'', ''filter'', ''x'', ''y''] [None, None, None] =
     Some [Some ''progname'', Some ''x'', Some ''y''] \<and>
   execvp_calls (trace (main env0 [''progname'', ''filter'', ''x'', ''y''])) =
     [(''lofreq2_filter.py'', [Some ''progname'', Some ''x'', Some ''y''])]"
  using filter_forwards_argv0_and_rest [of "[''progname'', ''filter'', ''x'', ''y'']" env0]
  by (simp add: env0_def)

subsection \<open>C2: the call branch\<close>

text \<open>
  C2. For every invocation with \<^verbatim>\<open>argc >= 2\<close> whose argument 1 is \<^verbatim>\<open>call\<close>, main calls the
  handler once, with the count \<^verbatim>\<open>argc - 1\<close> and the vector that starts at index 1, whose
  position 0 is the word \<^verbatim>\<open>call\<close>; whatever integer the handler returns, main returns it.
\<close>

theorem call_delegates_to_handler:
  assumes "2 \<le> length argv" and "argv ! 1 = ''call''"
  shows "trace (main env argv) = [Main_call (int (length argv) - 1) (drop 1 argv)] \<and>
         drop 1 argv ! 0 = ''call'' \<and>
         (\<forall>r. main_call env (int (length argv) - 1) (drop 1 argv) = r \<longrightarrow>
              outcome (main env argv) = Returned At_call r)"
  using assms by (simp add: main_def dispatch_def Let_def)

text \<open>With the stub handler that returns 7, \<^verbatim>\<open>progname call a b c\<close> returns 7.\<close>

theorem call_delegates_to_handler_witness:
  "2 \<le> length [''progname'', ''call'', ''a'', ''b'', ''c''] \<and>
   [''progname'', ''call'', ''a'', ''b'', ''c''] ! 1 = ''call'' \<and>
   main_call env0 (int (length [''progname'', ''call'', ''a'', ''b'', ''c'']) - 1)
     (drop 1 [''progname'', ''call'', ''a'', ''b'', ''c'']) = 7 \<and>
   trace (main env0 [''progname'', ''call'', ''a'', ''b'', ''c'']) =
     [Main_call 4 [''call'', ''a'', ''b'', ''c'']] \<and>
   outcome (main env0 [''progname'', ''call'', ''a'', ''b'', ''c'']) = Returned At_call 7"
  using call_delegates_to_handler [of "[''progname'', ''call'', ''a'', ''b'', ''c'']" env0]
  by (simp add: env0_def)

subsection \<open>C3: the size of the forwarded block\<close>

text \<open>
  C3. The claim says that the block of \<^verbatim>\<open>argc - 1\<close> slots keeps a zeroed slot behind the
  filled ones and so reaches \<^verbatim>\<open>execvp\<close> terminated by a null pointer. The code at
  \<^verbatim>\<open>lofreq filter in.vcf\<close>: the block has 2 slots, both are filled, none is null, and it
  is handed to \<^verbatim>\<open>execvp\<close> like that.
\<close>

theorem filter_vector_not_terminated:
  "trace (main env0 [''lofreq'', ''filter'', ''in.vcf'']) =
     [Calloc 2,
      Execvp ''lofreq2_filter.py'' [Some ''lofreq'', Some ''in.vcf''],
      Fprintf Stderr ''Calling lofreq2_filter.py via execvp failed: No such file or directory\<newline>'',
      Free] \<and>
   length [Some ''lofreq'', Some ''in.vcf''] = 2 \<and>
   filled [Some ''lofreq'', Some ''in.vcf''] = 2 \<and>
   \<not> terminated [Some ''lofreq'', Some ''in.vcf'']"
  by (simp add: main_filter filter_branch_eq env0_def perror_def filled_def terminated_def)

subsection \<open>C4: the process replacement fails\<close>

text \<open>
  C4. For every invocation on the filter path where \<^verbatim>\<open>execvp\<close> comes back with a nonzero
  value, main writes the message of \<^verbatim>\<open>perror\<close>, which ends in the description of the
  error left in \<^verbatim>\<open>errno\<close>, to the error stream, releases the block and returns -1.
\<close>

theorem filter_exec_failure_reported:
  assumes "2 \<le> length argv" and "argv ! 1 = ''filter''"
    and "calloc_ok env (length argv - 1)"
    and "execvp env ''lofreq2_filter.py'' (map Some (argv ! 0 # drop 2 argv)) = Exec_returned r e"
    and "r \<noteq> 0"
  shows "main env argv =
     \<lparr>branch = Filter,
      trace = [Calloc (length argv - 1),
               Execvp ''lofreq2_filter.py'' (map Some (argv ! 0 # drop 2 argv)),
               Fprintf Stderr (''Calling lofreq2_filter.py via execvp failed: '' @ strerror env e @ ''\<newline>''),
               Free],
      outcome = Returned At_filter_fail (- 1)\<rparr>"
  using assms by (simp add: main_filter filter_branch_eq perror_def)

text \<open>The script is not found: \<^verbatim>\<open>execvp\<close> returns -1 with \<^verbatim>\<open>ENOENT\<close>.\<close>

theorem filter_exec_failure_reported_witness:
  "2 \<le> length [''lofreq'', ''filter'', ''-i'', ''in.vcf''] \<and>
   [''lofreq'', ''filter'', ''-i'', ''in.vcf''] ! 1 = ''filter'' \<and>
   calloc_ok env0 (length [''lofreq'', ''filter'', ''-i'', ''in.vcf''] - 1) \<and>
   execvp env0 ''lofreq2_filter.py''
     (map Some ([''lofreq'', ''filter'', ''-i'', ''in.vcf''] ! 0 # drop 2 [''lofreq'', ''filter'', ''-i'', ''in.vcf'']))
     = Exec_returned (- 1) 2 \<and>
   (- 1 :: int) \<noteq> 0 \<and>
   main env0 [''lofreq'', ''filter'', ''-i'', ''in.vcf''] =
     \<lparr>branch = Filter,
      trace = [Calloc 3,
               Execvp ''lofreq2_filter.py'' [Some ''lofreq'', Some ''-i'', Some ''in.vcf''],
               Fprintf Stderr ''Calling lofreq2_filter.py via execvp failed: No such file or directory\<newline>'',
               Free],
      outcome = Returned At_filter_fail (- 1)\<rparr>"
  using filter_exec_failure_reported [of "[''lofreq'', ''filter'', ''-i'', ''in.vcf'']" env0 "- 1" 2]
  by (simp add: env0_def)

subsection \<open>C5: no subcommand\<close>

text \<open>
  C5. The claim says that every invocation with \<^verbatim>\<open>argc < 2\<close> prints the usage text with
  the basename of argument 0 and returns 1. The code at \<^verbatim>\<open>argc = 0\<close>: there is no
  argument 0, main passes the null pointer \<^verbatim>\<open>argv[0]\<close> on as a string, prints nothing
  and does not return 1.
\<close>

theorem usage_guard_without_argv0:
  "main env [] = \<lparr>branch = Usage_guard, trace = [], outcome = Null_deref\<rparr>"
  by (simp add: main_def)

subsection \<open>C6: the version branch\<close>

text \<open>
  C6. For the invocation \<^verbatim>\<open>progname version\<close>, main writes to standard output exactly
  the version string followed by a newline, writes nothing else, and returns 0.
\<close>

theorem version_prints_version:
  "main env [progname, ''version''] =
     \<lparr>branch = Version,
      trace = [Fprintf Stdout (PACKAGE_VERSION env @ ''\<newline>'')],
      outcome = Returned At_version 0\<rparr>"
  by (simp add: main_def dispatch_def)

subsection \<open>C7: an unrecognized command\<close>

text \<open>
  C7. For every invocation with \<^verbatim>\<open>argc >= 2\<close> whose argument 1 is none of \<^verbatim>\<open>call\<close>,
  \<^verbatim>\<open>filter\<close>, \<^verbatim>\<open>version\<close>, main logs one fatal message, which contains the token as it
  was given, and returns 1.
\<close>

theorem unknown_command_is_fatal:
  assumes "2 \<le> length argv"
    and "argv ! 1 \<noteq> ''call''" and "argv ! 1 \<noteq> ''filter''" and "argv ! 1 \<noteq> ''version''"
  shows "main env argv =
     \<lparr>branch = Unknown,
      trace = [Log_fatal (''Unrecognized command '' @ [CHR 0x27] @ argv ! 1 @ [CHR 0x27] @ ''\<newline>'')],
      outcome = Returned At_unknown 1\<rparr> \<and>
     (\<exists>msg pre post. trace (main env argv) = [Log_fatal msg] \<and> msg = pre @ argv ! 1 @ post)"
proof -
  have m: "main env argv =
     \<lparr>branch = Unknown,
      trace = [Log_fatal (''Unrecognized command '' @ [CHR 0x27] @ argv ! 1 @ [CHR 0x27] @ ''\<newline>'')],
      outcome = Returned At_unknown 1\<rparr>"
    using assms by (simp add: main_def dispatch_def Let_def strcmp_eq_0_iff LOG_FATAL_def)
  have "trace (main env argv) =
          [Log_fatal ((''Unrecognized command '' @ [CHR 0x27]) @ argv ! 1 @ ([CHR 0x27] @ ''\<newline>''))]"
    by (simp add: m)
  then show ?thesis using m by blast
qed

text \<open>The example of the spec: \<^verbatim>\<open>progname bogus\<close>.\<close>

theorem unknown_command_is_fatal_witness:
  "2 \<le> length [''progname'', ''bogus''] \<and>
   [''progname'', ''bogus''] ! 1 \<noteq> ''call'' \<and> [''progname'', ''bogus''] ! 1 \<noteq> ''filter'' \<and>
   [''progname'', ''bogus''] ! 1 \<noteq> ''version'' \<and>
   main env0 [''progname'', ''bogus''] =
     \<lparr>branch = Unknown,
      trace = [Log_fatal (''Unrecognized command '' @ [CHR 0x27] @ ''bogus'' @ [CHR 0x27] @ ''\<newline>'')],
      outcome = Returned At_unknown 1\<rparr>"
  using unknown_command_is_fatal [of "[''progname'', ''bogus'']" env0]
  by simp

subsection \<open>C8: order and first element of the forwarded vector\<close>

text \<open>
  C8, as claimed: the first element of the forwarded vector is a fixed replacement
  program name. The code on two invocations that differ in \<^verbatim>\<open>argv[0]\<close> only: the first
  element is \<^verbatim>\<open>argv[0]\<close> each time, so it is neither fixed nor the name of the script.
\<close>

theorem filter_first_element_counterexample:
  "execvp_calls (trace (main env0 [''lofreq'', ''filter'', ''x''])) =
     [(''lofreq2_filter.py'', [Some ''lofreq'', Some ''x''])] \<and>
   execvp_calls (trace (main env0 [''/opt/bin/lofreq'', ''filter'', ''x''])) =
     [(''lofreq2_filter.py'', [Some ''/opt/bin/lofreq'', Some ''x''])] \<and>
   ''lofreq'' \<noteq> ''/opt/bin/lofreq'' \<and> ''lofreq'' \<noteq> ''lofreq2_filter.py''"
  by (simp add: main_filter filter_branch_calls env0_def)

text \<open>
  C8, amended. For every invocation on the filter path (\<^verbatim>\<open>argc >= 2\<close>, allocation
  granted) the forwarded vector has \<^verbatim>\<open>argc - 1\<close> elements, its first element is the
  original \<^verbatim>\<open>argv[0]\<close>, and each argument behind the subcommand token moves down by one
  position, so their order is kept. The fixed name \<^verbatim>\<open>lofreq2_filter.py\<close> is the file
  argument of \<^verbatim>\<open>execvp\<close>, not an element of the vector.
\<close>

theorem filter_keeps_order_and_argv0:
  assumes "2 \<le> length argv" and "argv ! 1 = ''filter''" and "calloc_ok env (length argv - 1)"
  shows "\<exists>v. execvp_calls (trace (main env argv)) = [(''lofreq2_filter.py'', v)] \<and>
             length v = length argv - 1 \<and>
             v ! 0 = Some (argv ! 0) \<and>
             (\<forall>j. 2 \<le> j \<and> j < length argv \<longrightarrow> v ! (j - 1) = Some (argv ! j))"
proof -
  let ?v = "map Some (argv ! 0 # drop 2 argv)"
  have calls: "execvp_calls (trace (main env argv)) = [(''lofreq2_filter.py'', ?v)]"
    using assms by (simp add: main_filter filter_branch_calls)
  have len: "length ?v = length argv - 1" using assms(1) by simp
  have first: "?v ! 0 = Some (argv ! 0)" by simp
  have rest: "?v ! (j - 1) = Some (argv ! j)" if lo: "2 \<le> j" and hi: "j < length argv" for j
  proof -
    obtain k where k: "j = 2 + k"
      using le_Suc_ex [OF lo] by blast
    with hi show ?thesis by simp
  qed
  from calls len first rest show ?thesis by blast
qed

text \<open>\<^verbatim>\<open>lofreq filter x y\<close> forwards three elements: \<^verbatim>\<open>lofreq\<close>, \<^verbatim>\<open>x\<close>, \<^verbatim>\<open>y\<close>.\<close>

theorem filter_keeps_order_and_argv0_witness:
  "2 \<le> length [''lofreq'', ''filter'', ''x'', ''y''] \<and>
   [''lofreq'', ''filter'', ''x'', ''y''] ! 1 = ''filter'' \<and>
   calloc_ok env0 (length [''lofreq'', ''filter'', ''x'', ''y''] - 1) \<and>
   (\<exists>v. execvp_calls (trace (main env0 [''lofreq'', ''filter'', ''x'', ''y''])) =
           [(''lofreq2_filter.py'', v)] \<and>
        length v = 3 \<and> v ! 0 = Some ''lofreq'' \<and> v ! 1 = Some ''x'' \<and> v ! 2 = Some ''y'')"
proof -
  let ?argv = "[''lofreq'', ''filter'', ''x'', ''y'']"
  have h: "2 \<le> length ?argv" "?argv ! 1 = ''filter''" "calloc_ok env0 (length ?argv - 1)"
    by (simp_all add: env0_def)
  from filter_keeps_order_and_argv0 [OF h]
  obtain v where v: "execvp_calls (trace (main env0 ?argv)) = [(''lofreq2_filter.py'', v)]"
      "length v = length ?argv - 1" "v ! 0 = Some (?argv ! 0)"
      "\<forall>j. 2 \<le> j \<and> j < length ?argv \<longrightarrow> v ! (j - 1) = Some (?argv ! j)"
    by blast
  from v(4) [rule_format, of 2] v(4) [rule_format, of 3]
  have "v ! 1 = Some ''x''" "v ! 2 = Some ''y''" by simp_all
  with v h show ?thesis by simp
qed

subsection \<open>C9: the branch depends on argument 1 alone\<close>

text \<open>
  C9. For two invocations with \<^verbatim>\<open>argc >= 2\<close> that agree on argument 1, in whatever
  environment, main runs the same branch. In particular \<^verbatim>\<open>version\<close> prints the version
  string and returns 0, and an unrecognized token returns 1, whatever follows.
\<close>

theorem branch_depends_on_argv1_only:
  assumes "2 \<le> length argv" and "2 \<le> length argv'" and "argv ! 1 = argv' ! 1"
  shows "branch (main env argv) = branch (main env' argv') \<and>
         (argv ! 1 = ''version'' \<longrightarrow>
            trace (main env argv) = [Fprintf Stdout (PACKAGE_VERSION env @ ''\<newline>'')] \<and>
            outcome (main env argv) = Returned At_version 0) \<and>
         (argv ! 1 \<noteq> ''call'' \<and> argv ! 1 \<noteq> ''filter'' \<and> argv ! 1 \<noteq> ''version'' \<longrightarrow>
            outcome (main env argv) = Returned At_unknown 1)"
proof -
  have fb: "branch (filter_branch e a) = Filter" for e a
    by (simp add: filter_branch_def Let_def split: option.split exec_result.split)
  have br: "branch (main e a) =
      (if a ! 1 = ''call'' then Call else if a ! 1 = ''filter'' then Filter
       else if a ! 1 = ''version'' then Version else Unknown)" if "2 \<le> length a" for e a
    using that by (simp add: main_def dispatch_def Let_def strcmp_eq_0_iff fb)
  have "branch (main env argv) = branch (main env' argv')"
    using assms by (simp add: br)
  moreover have "trace (main env argv) = [Fprintf Stdout (PACKAGE_VERSION env @ ''\<newline>'')] \<and>
            outcome (main env argv) = Returned At_version 0" if "argv ! 1 = ''version''"
    using assms(1) that by (simp add: main_def dispatch_def Let_def strcmp_eq_0_iff)
  moreover have "outcome (main env argv) = Returned At_unknown 1"
    if "argv ! 1 \<noteq> ''call'' \<and> argv ! 1 \<noteq> ''filter'' \<and> argv ! 1 \<noteq> ''version''"
    using assms(1) that by (simp add: main_def dispatch_def Let_def strcmp_eq_0_iff)
  ultimately show ?thesis by blast
qed

text \<open>
  Two instances: \<^verbatim>\<open>version\<close> followed by further arguments against \<^verbatim>\<open>version\<close> alone,
  and \<^verbatim>\<open>bogus\<close> followed by further arguments against \<^verbatim>\<open>bogus\<close> alone.
\<close>

theorem branch_depends_on_argv1_only_witness:
  "2 \<le> length [''lofreq'', ''version''] \<and>
   2 \<le> length [''/opt/bin/lofreq'', ''version'', ''--verbose'', ''call'', ''filter''] \<and>
   [''/opt/bin/lofreq'', ''version'', ''--verbose'', ''call'', ''filter''] ! 1 = [''lofreq'', ''version''] ! 1 \<and>
   [''/opt/bin/lofreq'', ''version'', ''--verbose'', ''call'', ''filter''] ! 1 = ''version'' \<and>
   branch (main env0 [''/opt/bin/lofreq'', ''version'', ''--verbose'', ''call'', ''filter'']) =
     branch (main env0 [''lofreq'', ''version'']) \<and>
   trace (main env0 [''/opt/bin/lofreq'', ''version'', ''--verbose'', ''call'', ''filter'']) =
     [Fprintf Stdout ''2.0.0\<newline>''] \<and>
   outcome (main env0 [''/opt/bin/lofreq'', ''version'', ''--verbose'', ''call'', ''filter'']) =
     Returned At_version 0 \<and>
   2 \<le> length [''lofreq'', ''bogus''] \<and>
   2 \<le> length [''lofreq'', ''bogus'', ''version'', ''x''] \<and>
   [''lofreq'', ''bogus'', ''version'', ''x''] ! 1 = [''lofreq'', ''bogus''] ! 1 \<and>
   [''lofreq'', ''bogus'', ''version'', ''x''] ! 1 \<noteq> ''call'' \<and>
   [''lofreq'', ''bogus'', ''version'', ''x''] ! 1 \<noteq> ''filter'' \<and>
   [''lofreq'', ''bogus'', ''version'', ''x''] ! 1 \<noteq> ''version'' \<and>
   branch (main env0 [''lofreq'', ''bogus'', ''version'', ''x'']) =
     branch (main env0 [''lofreq'', ''bogus'']) \<and>
   outcome (main env0 [''lofreq'', ''bogus'', ''version'', ''x'']) = Returned At_unknown 1"
  using branch_depends_on_argv1_only
    [of "[''/opt/bin/lofreq'', ''version'', ''--verbose'', ''call'', ''filter'']"
        "[''lofreq'', ''version'']" env0 env0]
    branch_depends_on_argv1_only
    [of "[''lofreq'', ''bogus'', ''version'', ''x'']" "[''lofreq'', ''bogus'']" env0 env0]
  by (simp add: env0_def)

subsection \<open>C10: the two statements \<^verbatim>\<open>return 0\<close> that cannot be reached\<close>

text \<open>
  C10, as claimed: every execution of main returns from inside one of the four arms of
  the dispatch chain. The code at \<^verbatim>\<open>argc = 1\<close> returns from the usage guard in front of
  the chain.
\<close>

theorem usage_guard_return_counterexample:
  "outcome (main env0 [''lofreq'']) = Returned At_usage 1 \<and> \<not> in_dispatch_chain At_usage"
  by (simp add: main_def)

text \<open>
  C10, amended. If \<^verbatim>\<open>execvp\<close> never comes back with 0, then whenever main returns, it
  returns neither from the else arm of the filter branch nor from the last statement:
  with \<^verbatim>\<open>argc < 2\<close> it returns from the usage guard, otherwise from inside an arm of the
  dispatch chain, and the filter branch returns only -1, from its failure arm.
\<close>

theorem return_zero_sites_unreachable:
  assumes contract: "\<And>file v e. execvp env file v \<noteq> Exec_returned 0 e"
    and ret: "outcome (main env argv) = Returned s r"
  shows "s \<noteq> At_filter_else \<and> s \<noteq> At_end \<and>
         (if length argv < 2 then s = At_usage else in_dispatch_chain s) \<and>
         (branch (main env argv) = Filter \<longrightarrow> s = At_filter_fail \<and> r = - 1)"
proof (cases "length argv < 2")
  case True
  then have "argv = [] \<or> (\<exists>a0. argv = [a0])"
    by (cases argv; cases "tl argv") auto
  then show ?thesis using ret True
    by (auto simp: main_def)
next
  case False
  then have two: "2 \<le> length argv" by simp
  have fb: "s = At_filter_fail \<and> r = - 1" if "outcome (filter_branch env argv) = Returned s r"
    using that contract
    by (auto simp: filter_branch_def Let_def split: option.splits exec_result.splits if_splits)
  show ?thesis
  proof (cases "argv ! 1 = ''filter''")
    case True
    with two ret have "outcome (filter_branch env argv) = Returned s r"
      by (simp add: main_filter)
    then have "s = At_filter_fail \<and> r = - 1" by (rule fb)
    then show ?thesis using False by simp
  next
    case nf: False
    have "branch (main env argv) \<noteq> Filter"
      using two nf by (simp add: main_def dispatch_def Let_def strcmp_eq_0_iff)
    moreover have "s \<in> {At_call, At_version, At_unknown}"
      using two nf ret by (auto simp: main_def dispatch_def Let_def strcmp_eq_0_iff split: if_splits)
    ultimately show ?thesis using False by auto
  qed
qed

text \<open>
  The concrete environment keeps the contract; \<^verbatim>\<open>lofreq filter x\<close> returns -1 from the
  failure arm of the filter branch.
\<close>

theorem return_zero_sites_unreachable_witness:
  "(\<forall>file v e. execvp env0 file v \<noteq> Exec_returned 0 e) \<and>
   outcome (main env0 [''lofreq'', ''filter'', ''x'']) = Returned At_filter_fail (- 1) \<and>
   At_filter_fail \<noteq> At_filter_else \<and> At_filter_fail \<noteq> At_end \<and>
   in_dispatch_chain At_filter_fail \<and>
   branch (main env0 [''lofreq'', ''filter'', ''x'']) = Filter"
proof -
  have c: "execvp env0 f v \<noteq> Exec_returned 0 e" for f v e
    by (simp add: env0_def)
  have r: "outcome (main env0 [''lofreq'', ''filter'', ''x'']) = Returned At_filter_fail (- 1)"
    by (simp add: main_filter filter_branch_eq env0_def)
  have b: "branch (main env0 [''lofreq'', ''filter'', ''x'']) = Filter"
    by (simp add: main_filter filter_branch_eq env0_def)
  from return_zero_sites_unreachable [of env0 "[''lofreq'', ''filter'', ''x'']", OF c r] c r b
  show ?thesis by simp
qed

end
